theory Spec2Isabelle
  imports Complex_Main
begin

section \<open>The dipole length calculator (dipole-antennas.py)\<close>

text \<open>
  The script computes with Python floats and NumPy float arrays. The embedding has two
  levels. The first reads a float as a \<^typ>\<open>real\<close> and a one-dimensional float array
  as a \<^typ>\<open>real list\<close>: the arithmetic is exact. It serves the claims about the
  shape of the results, which rounding does not touch. The second level, the section
  on doubles below, adds what the reals hide: overflow to infinity, underflow to zero
  and NaN. It serves the claims that turn on them. Every exception the script can raise
  is a value of \<open>py_error\<close>, and a function that can raise returns \<open>py_error + 'a\<close>.
\<close>

datatype py_error = ZeroDivisionError | ValueError | IndexError

subsection \<open>Wavelength and lengths\<close>

text \<open>\<^verbatim>\<open>C = 299_792_458  # m/s\<close>\<close>

definition C :: real where
  "C = 299792458"

text \<open>
  \<^verbatim>\<open>def wavelength_m(freq_mhz): return C / (freq_mhz * 1e6)\<close>

  Python's float division raises ZeroDivisionError on a zero divisor.
\<close>

definition wavelength_m :: "real \<Rightarrow> py_error + real" where
  "wavelength_m freq_mhz =
     (if freq_mhz * 1000000 = 0 then Inl ZeroDivisionError
      else Inr (C / (freq_mhz * 1000000)))"

text \<open>
  \<^verbatim>\<open>
  def lengths(freq_mhz, vf, mult):
      lam = wavelength_m(freq_mhz)
      L_total = mult * lam * vf
      return lam, L_total, L_total/2
  \<close>
\<close>

definition lengths :: "real \<Rightarrow> real \<Rightarrow> real \<Rightarrow> py_error + (real \<times> real \<times> real)" where
  "lengths freq_mhz vf mult =
     (case wavelength_m freq_mhz of
        Inl e \<Rightarrow> Inl e
      | Inr lam \<Rightarrow> (let L_total = mult * lam * vf in Inr (lam, L_total, L_total / 2)))"

subsection \<open>NumPy boolean-mask indexing\<close>

text \<open>\<^verbatim>\<open>np.zeros_like(x)\<close>: an array of zeros of the shape of \<open>x\<close>.\<close>

definition zeros_like :: "real list \<Rightarrow> real list" where
  "zeros_like x = replicate (length x) 0"

text \<open>
  \<^verbatim>\<open>x[mask]\<close>: the elements of \<open>x\<close> where the mask is true, in order. A mask of another
  length than the array raises IndexError.
\<close>

fun select :: "'a list \<Rightarrow> bool list \<Rightarrow> 'a list" where
  "select (x # xs) (b # bs) = (if b then x # select xs bs else select xs bs)"
| "select _ _ = []"

definition mask_get :: "'a list \<Rightarrow> bool list \<Rightarrow> py_error + 'a list" where
  "mask_get x bmask =
     (if length bmask \<noteq> length x then Inl IndexError else Inr (select x bmask))"

text \<open>
  \<^verbatim>\<open>I[mask] = vs\<close>: the values \<open>vs\<close> are written, in order, to the places of \<open>I\<close> where
  the mask is true. A single value is broadcast to all of them; otherwise a number of
  values other than the number of true places raises ValueError.
\<close>

fun scatter :: "'a list \<Rightarrow> bool list \<Rightarrow> 'a list \<Rightarrow> 'a list" where
  "scatter (y # ys) (b # bs) vs =
     (if b then (case vs of [] \<Rightarrow> y # scatter ys bs [] | v # vs' \<Rightarrow> v # scatter ys bs vs')
      else y # scatter ys bs vs)"
| "scatter ys _ _ = ys"

definition count_true :: "bool list \<Rightarrow> nat" where
  "count_true bmask = length (filter id bmask)"

definition mask_set :: "'a list \<Rightarrow> bool list \<Rightarrow> 'a list \<Rightarrow> py_error + 'a list" where
  "mask_set I bmask vs =
     (if length bmask \<noteq> length I then Inl IndexError
      else if length vs = 1 then Inr (scatter I bmask (replicate (count_true bmask) (hd vs)))
      else if length vs \<noteq> count_true bmask then Inl ValueError
      else Inr (scatter I bmask vs))"

subsection \<open>The current distribution\<close>

text \<open>
  \<^verbatim>\<open>
  def current_distribution(x, L_elec_lambda):
      half = L_elec_lambda / 2.0
      inside = np.abs(x) <= half
      I = np.zeros_like(x)
      I[inside] = np.sin(2*np.pi * (half - np.abs(x[inside])))
      return I
  \<close>
\<close>

definition current_distribution :: "real list \<Rightarrow> real \<Rightarrow> py_error + real list" where
  "current_distribution x L_elec_lambda =
     (let half = L_elec_lambda / 2;
          inside = map (\<lambda>xi. \<bar>xi\<bar> \<le> half) x;
          I = zeros_like x
      in case mask_get x inside of
           Inl e \<Rightarrow> Inl e
         | Inr x_inside \<Rightarrow>
             mask_set I inside (map (\<lambda>xi. sin (2 * pi * (half - \<bar>xi\<bar>))) x_inside))"

text \<open>
  The spec's rule for one position, in its words: with \<open>half = length_multiplier / 2\<close>,
  the output is 0 if \<open>|x| > half\<close>, and \<open>sin(2\<pi> \<times> (half - |x|))\<close> otherwise. The
  theorems compare \<open>current_distribution\<close> with it.
\<close>

definition spec_current_profile :: "real \<Rightarrow> real \<Rightarrow> real" where
  "spec_current_profile length_multiplier xi =
     (if \<bar>xi\<bar> > length_multiplier / 2 then 0
      else sin (2 * pi * (length_multiplier / 2 - \<bar>xi\<bar>)))"

subsection \<open>The figure and its widgets\<close>

text \<open>
  \<^verbatim>\<open>x = np.linspace(-1.5, 1.5, 2000)\<close>: the position axis, a global of the script. It
  is named \<open>x_axis\<close> here.
\<close>

definition linspace :: "real \<Rightarrow> real \<Rightarrow> nat \<Rightarrow> real list" where
  "linspace start stop num =
     map (\<lambda>i. start + real i * ((stop - start) / real (num - 1))) [0..<num]"

definition x_axis :: "real list" where
  "x_axis = linspace (- (15 / 10)) (15 / 10) 2000"

text \<open>
  \<^verbatim>\<open>
  freq0 = 100.0   # MHz
  vf0 = 0.95
  mult0 = 0.5     # 0.5\<lambda> dipole (classic)
  \<close>
\<close>

definition freq0 :: real where
  "freq0 = 100"

definition vf0 :: real where
  "vf0 = 95 / 100"

definition mult0 :: real where
  "mult0 = 5 / 10"

text \<open>\<^verbatim>\<open>str(freq0)\<close>: Python prints the float 100.0 as \<open>100.0\<close>.\<close>

definition str_freq0 :: string where
  "str_freq0 = ''100.0''"

text \<open>
  What the callbacks read and write: the text of the box \<open>tb_freq\<close>, the values of the
  sliders \<open>s_vf\<close> and \<open>s_mult\<close>, the y data of the plotted line, and the status text. The
  status text is kept as the numbers that \<open>update\<close> formats into it (the rounding to
  three decimals of the format is not modelled); \<open>None\<close> is the empty text the figure
  starts with.
\<close>

record readout =
  shown_freq :: real
  shown_lam :: real
  shown_total :: real
  shown_mult :: real
  shown_vf :: real
  shown_arm :: real

record ui =
  tb_freq_text :: string
  s_vf_val :: real
  s_mult_val :: real
  line_ydata :: "real list"
  status :: "readout option"

text \<open>
  \<^verbatim>\<open>str.strip()\<close>: whitespace removed at both ends. A \<^typ>\<open>char\<close> is a byte, so the
  whitespace is the ASCII one (tab to carriage return, the four separators 28 to 31,
  and the space).
\<close>

definition is_space :: "char \<Rightarrow> bool" where
  "is_space c =
     (let n = (of_char c :: nat) in (9 \<le> n \<and> n \<le> 13) \<or> (28 \<le> n \<and> n \<le> 31) \<or> n = 32)"

definition strip :: "string \<Rightarrow> string" where
  "strip t = rev (dropWhile is_space (rev (dropWhile is_space t)))"

text \<open>
  \<^verbatim>\<open>
  def update(_=None):
      try:
          freq_mhz = float(tb_freq.text.strip())
          if freq_mhz <= 0:
              raise ValueError
      except ValueError:
          freq_mhz = freq0  # fallback
      vf = float(s_vf.val)
      mult = float(s_mult.val)
      I = current_distribution(x, mult)
      line.set_ydata(I)
      lam, L_total, L_arm = lengths(freq_mhz, vf, mult)
      status.set_text(...)
  \<close>

  Python's builtin \<open>float\<close> is the parameter \<open>py_float\<close>: it gives the number a text
  denotes, and \<open>None\<close> where \<open>float\<close> raises ValueError (the only exception it raises
  on a string).
\<close>

definition update :: "(string \<Rightarrow> real option) \<Rightarrow> ui \<Rightarrow> py_error + ui" where
  "update py_float s =
     (let freq_mhz =
            (case py_float (strip (tb_freq_text s)) of
               None \<Rightarrow> freq0
             | Some f \<Rightarrow> if f \<le> 0 then freq0 else f);
          vf = s_vf_val s;
          mult = s_mult_val s
      in case current_distribution x_axis mult of
           Inl e \<Rightarrow> Inl e
         | Inr I \<Rightarrow>
             (case lengths freq_mhz vf mult of
                Inl e \<Rightarrow> Inl e
              | Inr (lam, L_total, L_arm) \<Rightarrow>
                  Inr (s\<lparr>line_ydata := I,
                         status := Some \<lparr>shown_freq = freq_mhz, shown_lam = lam,
                           shown_total = L_total, shown_mult = mult, shown_vf = vf,
                           shown_arm = L_arm\<rparr>\<rparr>)))"

text \<open>\<^verbatim>\<open>def submit_freq(_): update()\<close>\<close>

definition submit_freq :: "(string \<Rightarrow> real option) \<Rightarrow> ui \<Rightarrow> py_error + ui" where
  "submit_freq py_float s = update py_float s"

text \<open>
  The widgets call the callbacks wired to them
  (\<^verbatim>\<open>tb_freq.on_submit(submit_freq)\<close>, \<^verbatim>\<open>s_vf.on_changed(update)\<close>,
  \<^verbatim>\<open>s_mult.on_changed(update)\<close>):
  \<^item> \<open>TextBox.set_val\<close> returns at once when the text is the new one already; otherwise it
    stores the text and runs the submit callback;
  \<^item> \<open>Slider.reset\<close> sets the value back to \<open>valinit\<close> (here \<open>vf0\<close> and \<open>mult0\<close>) and
    runs the change callback, when the value differs from it.
\<close>

definition then_do :: "py_error + 'a \<Rightarrow> ('a \<Rightarrow> py_error + 'b) \<Rightarrow> py_error + 'b" where
  "then_do r f = (case r of Inl e \<Rightarrow> Inl e | Inr v \<Rightarrow> f v)"

definition tb_freq_set_val :: "(string \<Rightarrow> real option) \<Rightarrow> string \<Rightarrow> ui \<Rightarrow> py_error + ui" where
  "tb_freq_set_val py_float newval s =
     (if tb_freq_text s = newval then Inr s
      else submit_freq py_float (s\<lparr>tb_freq_text := newval\<rparr>))"

definition s_vf_reset :: "(string \<Rightarrow> real option) \<Rightarrow> ui \<Rightarrow> py_error + ui" where
  "s_vf_reset py_float s =
     (if s_vf_val s \<noteq> vf0 then update py_float (s\<lparr>s_vf_val := vf0\<rparr>) else Inr s)"

definition s_mult_reset :: "(string \<Rightarrow> real option) \<Rightarrow> ui \<Rightarrow> py_error + ui" where
  "s_mult_reset py_float s =
     (if s_mult_val s \<noteq> mult0 then update py_float (s\<lparr>s_mult_val := mult0\<rparr>) else Inr s)"

text \<open>
  \<^verbatim>\<open>
  def reset(_):
      tb_freq.set_val(str(freq0))
      s_vf.reset()
      s_mult.reset()
      update()
  \<close>
\<close>

definition reset :: "(string \<Rightarrow> real option) \<Rightarrow> ui \<Rightarrow> py_error + ui" where
  "reset py_float s =
     then_do (tb_freq_set_val py_float str_freq0 s) (\<lambda>s1.
     then_do (s_vf_reset py_float s1) (\<lambda>s2.
     then_do (s_mult_reset py_float s2) (\<lambda>s3.
     update py_float s3)))"

text \<open>
  A parser for the plain decimal texts among those Python's \<open>float\<close> accepts: an
  optional sign, digits, and an optional point with digits after it. It stands for
  \<open>float\<close> where an example is run; the theorems hold for every parser.
\<close>

definition is_digit :: "char \<Rightarrow> bool" where
  "is_digit c = (let n = (of_char c :: nat) in 48 \<le> n \<and> n \<le> 57)"

definition nat_of_digits :: "string \<Rightarrow> nat" where
  "nat_of_digits ds = foldl (\<lambda>n c. 10 * n + (of_char c - 48)) 0 ds"

definition unsigned_decimal :: "string \<Rightarrow> real option" where
  "unsigned_decimal t =
     (let ip = takeWhile is_digit t; rest = dropWhile is_digit t
      in if ip = [] then None
         else if rest = [] then Some (real (nat_of_digits ip))
         else if hd rest = CHR ''.'' \<and> list_all is_digit (tl rest)
           then Some (real (nat_of_digits ip)
                  + real (nat_of_digits (tl rest)) / 10 ^ length (tl rest))
         else None)"

definition decimal_float :: "string \<Rightarrow> real option" where
  "decimal_float t =
     (case t of
        [] \<Rightarrow> None
      | c # u \<Rightarrow>
          if c = CHR ''-'' then map_option uminus (unsigned_decimal u)
          else if c = CHR ''+'' then unsigned_decimal u
          else unsigned_decimal t)"

section \<open>Doubles with their special values\<close>

text \<open>
  A Python float is an IEEE double: a finite number, plus or minus infinity, or NaN.
  The two zeros are one value here (the script never tells them apart: a division by
  either raises, and both compare equal to 0).
\<close>

datatype double = Fin real | PInf | NInf | NaN

text \<open>
  The result of an operation on finite doubles, from the exact result \<open>r\<close>: infinity when
  \<open>r\<close> rounds to infinity (its magnitude is at least \<open>2^1024 - 2^970\<close>, half a step above
  the largest double), zero when \<open>r\<close> rounds to zero (its magnitude is at most
  \<open>2^-1075\<close>, half the smallest double), and \<open>r\<close> itself otherwise: the rounding of a
  result inside the range to the nearest double is not modelled.
\<close>

definition overflow_threshold :: real where
  "overflow_threshold = 2 ^ 1024 - 2 ^ 970"

definition underflow_threshold :: real where
  "underflow_threshold = 1 / 2 ^ 1075"

definition to_double :: "real \<Rightarrow> double" where
  "to_double r =
     (if overflow_threshold \<le> r then PInf
      else if r \<le> - overflow_threshold then NInf
      else if \<bar>r\<bar> \<le> underflow_threshold then Fin 0
      else Fin r)"

text \<open>
  Multiplication and subtraction (\<open>*\<close> and \<open>-\<close> of Python floats and of NumPy arrays):
  they never raise; an overflow gives an infinity, and \<open>0 * inf\<close>, \<open>inf - inf\<close> and every
  operation on NaN give NaN.
\<close>

fun dmul :: "double \<Rightarrow> double \<Rightarrow> double" where
  "dmul (Fin a) (Fin b) = to_double (a * b)"
| "dmul NaN _ = NaN"
| "dmul _ NaN = NaN"
| "dmul (Fin a) PInf = (if a = 0 then NaN else if 0 < a then PInf else NInf)"
| "dmul (Fin a) NInf = (if a = 0 then NaN else if 0 < a then NInf else PInf)"
| "dmul PInf (Fin b) = (if b = 0 then NaN else if 0 < b then PInf else NInf)"
| "dmul NInf (Fin b) = (if b = 0 then NaN else if 0 < b then NInf else PInf)"
| "dmul PInf PInf = PInf"
| "dmul PInf NInf = NInf"
| "dmul NInf PInf = NInf"
| "dmul NInf NInf = PInf"

fun dsub :: "double \<Rightarrow> double \<Rightarrow> double" where
  "dsub (Fin a) (Fin b) = to_double (a - b)"
| "dsub NaN _ = NaN"
| "dsub _ NaN = NaN"
| "dsub (Fin a) PInf = NInf"
| "dsub (Fin a) NInf = PInf"
| "dsub PInf (Fin b) = PInf"
| "dsub NInf (Fin b) = NInf"
| "dsub PInf PInf = NaN"
| "dsub PInf NInf = PInf"
| "dsub NInf PInf = NInf"
| "dsub NInf NInf = NaN"

text \<open>
  Division of Python floats (\<open>/\<close>): a zero divisor raises ZeroDivisionError, whatever
  the dividend; otherwise as IEEE division.
\<close>

fun ddiv :: "double \<Rightarrow> double \<Rightarrow> py_error + double" where
  "ddiv a (Fin b) =
     (if b = 0 then Inl ZeroDivisionError
      else Inr (case a of
                  Fin x \<Rightarrow> to_double (x / b)
                | PInf \<Rightarrow> if 0 < b then PInf else NInf
                | NInf \<Rightarrow> if 0 < b then NInf else PInf
                | NaN \<Rightarrow> NaN))"
| "ddiv (Fin a) PInf = Inr (Fin 0)"
| "ddiv (Fin a) NInf = Inr (Fin 0)"
| "ddiv _ _ = Inr NaN"

text \<open>
  \<open>np.abs\<close>, the comparison \<open><=\<close> (false as soon as one side is NaN) and \<open>np.sin\<close>
  (NaN at an infinity and at NaN).
\<close>

fun dabs :: "double \<Rightarrow> double" where
  "dabs (Fin a) = Fin \<bar>a\<bar>"
| "dabs PInf = PInf"
| "dabs NInf = PInf"
| "dabs NaN = NaN"

fun dle :: "double \<Rightarrow> double \<Rightarrow> bool" where
  "dle (Fin a) (Fin b) = (a \<le> b)"
| "dle NaN _ = False"
| "dle _ NaN = False"
| "dle NInf _ = True"
| "dle _ PInf = True"
| "dle PInf _ = False"
| "dle _ NInf = False"

fun dsin :: "double \<Rightarrow> double" where
  "dsin (Fin a) = Fin (sin a)"
| "dsin _ = NaN"

subsection \<open>The functions of the script over doubles\<close>

text \<open>
  The functions of the script once more, line by line as above, with the operations on
  doubles; their names carry the suffix \<open>_d\<close>. The integer \<open>C\<close> becomes a float in the
  division.
\<close>

definition wavelength_m_d :: "double \<Rightarrow> py_error + double" where
  "wavelength_m_d freq_mhz = ddiv (Fin C) (dmul freq_mhz (Fin 1000000))"

definition lengths_d :: "double \<Rightarrow> double \<Rightarrow> double \<Rightarrow> py_error + (double \<times> double \<times> double)" where
  "lengths_d freq_mhz vf mult =
     (case wavelength_m_d freq_mhz of
        Inl e \<Rightarrow> Inl e
      | Inr lam \<Rightarrow>
          (let L_total = dmul (dmul mult lam) vf
           in case ddiv L_total (Fin 2) of
                Inl e \<Rightarrow> Inl e
              | Inr L_arm \<Rightarrow> Inr (lam, L_total, L_arm)))"

text \<open>\<open>np.zeros_like\<close> and \<open>current_distribution\<close>.\<close>

definition zeros_like_d :: "double list \<Rightarrow> double list" where
  "zeros_like_d x = replicate (length x) (Fin 0)"

definition current_distribution_d :: "double list \<Rightarrow> double \<Rightarrow> py_error + double list" where
  "current_distribution_d x L_elec_lambda =
     (case ddiv L_elec_lambda (Fin 2) of
        Inl e \<Rightarrow> Inl e
      | Inr half \<Rightarrow>
          (let inside = map (\<lambda>xi. dle (dabs xi) half) x;
               I = zeros_like_d x
           in case mask_get x inside of
                Inl e \<Rightarrow> Inl e
              | Inr x_inside \<Rightarrow>
                  mask_set I inside
                    (map (\<lambda>xi. dsin (dmul (dmul (Fin 2) (Fin pi)) (dsub half (dabs xi))))
                       x_inside)))"

text \<open>
  The position axis (its samples are finite), the widgets with doubles as values, and
  \<open>update\<close>. Python's \<open>float\<close> is again a parameter; here it can give an infinity or
  NaN, as \<open>float\<close> does for the texts \<open>inf\<close> and \<open>nan\<close>.
\<close>

definition x_axis_d :: "double list" where
  "x_axis_d = map Fin x_axis"

record readout_d =
  shown_freq_d :: double
  shown_lam_d :: double
  shown_total_d :: double
  shown_mult_d :: double
  shown_vf_d :: double
  shown_arm_d :: double

record ui_d =
  tb_freq_text_d :: string
  s_vf_val_d :: double
  s_mult_val_d :: double
  line_ydata_d :: "double list"
  status_d :: "readout_d option"

definition update_d :: "(string \<Rightarrow> double option) \<Rightarrow> ui_d \<Rightarrow> py_error + ui_d" where
  "update_d py_float s =
     (let freq_mhz =
            (case py_float (strip (tb_freq_text_d s)) of
               None \<Rightarrow> Fin freq0
             | Some f \<Rightarrow> if dle f (Fin 0) then Fin freq0 else f);
          vf = s_vf_val_d s;
          mult = s_mult_val_d s
      in case current_distribution_d x_axis_d mult of
           Inl e \<Rightarrow> Inl e
         | Inr I \<Rightarrow>
             (case lengths_d freq_mhz vf mult of
                Inl e \<Rightarrow> Inl e
              | Inr (lam, L_total, L_arm) \<Rightarrow>
                  Inr (s\<lparr>line_ydata_d := I,
                         status_d := Some \<lparr>shown_freq_d = freq_mhz, shown_lam_d = lam,
                           shown_total_d = L_total, shown_mult_d = mult, shown_vf_d = vf,
                           shown_arm_d = L_arm\<rparr>\<rparr>)))"

text \<open>
  A parser for examples: the texts \<open>nan\<close>, \<open>inf\<close> and \<open>-inf\<close> as Python's \<open>float\<close> reads
  them, and the plain decimal texts of \<open>decimal_float\<close>.
\<close>

definition special_float :: "string \<Rightarrow> double option" where
  "special_float t =
     (if t = ''nan'' then Some NaN
      else if t = ''inf'' then Some PInf
      else if t = ''-inf'' then Some NInf
      else map_option Fin (decimal_float t))"

section \<open>Properties\<close>

lemma length_select: "length bs = length xs \<Longrightarrow> length (select xs bs) = count_true bs"
  by (induction xs bs rule: select.induct) (auto simp: count_true_def)

lemma scatter_select_map:
  "scatter (replicate (length xs) z) (map P xs) (map f (select xs (map P xs)))
     = map (\<lambda>x. if P x then f x else z) xs"
  by (induction xs) auto

lemma scatter_single:
  "length (select xs (map P xs)) = 1 \<Longrightarrow>
   replicate (count_true (map P xs)) (hd (map f (select xs (map P xs))))
     = map f (select xs (map P xs))"
  by (cases "select xs (map P xs)") (auto simp: length_select [symmetric])

lemma current_distribution_map:
  "current_distribution x L = Inr (map (spec_current_profile L) x)"
proof -
  let ?P = "\<lambda>xi. \<bar>xi\<bar> \<le> L / 2"
  let ?f = "\<lambda>xi. sin (2 * pi * (L / 2 - \<bar>xi\<bar>))"
  have len: "length (map ?f (select x (map ?P x))) = count_true (map ?P x)"
    by (simp add: length_select)
  have sc: "scatter (zeros_like x) (map ?P x) (map ?f (select x (map ?P x)))
      = map (spec_current_profile L) x"
    unfolding zeros_like_def scatter_select_map
    by (rule map_cong) (auto simp: spec_current_profile_def)
  show ?thesis
  proof (cases "length (select x (map ?P x)) = 1")
    case True
    then show ?thesis
      using sc scatter_single [of x ?P ?f]
      by (simp add: current_distribution_def mask_get_def mask_set_def zeros_like_def)
  next
    case False
    then show ?thesis
      using sc len
      by (simp add: current_distribution_def mask_get_def mask_set_def zeros_like_def)
  qed
qed

subsection \<open>The current profile\<close>

text \<open>
  C1. For every sequence of positions and every length multiplier,
  \<open>current_distribution\<close> returns a sequence of the same length as the positions, and
  its element for a position \<open>x\<close> is 0 when \<open>|x| > half\<close> and
  \<open>sin(2\<pi> \<times> (half - |x|))\<close> when \<open>|x| \<le> half\<close>, where \<open>half\<close> is half the multiplier.
\<close>

theorem current_distribution_elementwise:
  "\<exists>I. current_distribution x L = Inr I \<and> length I = length x \<and>
     I = map (\<lambda>xi. if \<bar>xi\<bar> > L / 2 then 0 else sin (2 * pi * (L / 2 - \<bar>xi\<bar>))) x"
  using current_distribution_map [of x L]
  by (simp add: spec_current_profile_def [abs_def])

text \<open>
  C4. The current profile is an even function of the position: for every length
  multiplier, the profile computed at the negated positions is the profile computed at
  the positions.
\<close>

theorem current_distribution_even:
  "current_distribution (map uminus x) L = current_distribution x L"
  by (simp add: current_distribution_map spec_current_profile_def)

text \<open>
  C5, as the spec states it, fails: with length multiplier 1 the positions 0.25 and
  -0.25 are inside the antenna (half is 0.5) and the profile there is
  \<open>sin(2\<pi> \<times> 0.25) = 1\<close>, not 0.
\<close>

theorem full_wave_quarter_not_zero:
  "current_distribution [1 / 4, - (1 / 4), 0] 1 \<noteq> Inr [0, 0, 0]"
  by (simp add: current_distribution_map spec_current_profile_def)

text \<open>
  C5, amended. With length multiplier 1 (full wave), the profile at the positions 0.25
  and -0.25 is \<open>sin(2\<pi> \<times> 0.25) = 1\<close>, the profile at the position 0 is
  \<open>sin(2\<pi> \<times> 0.5) = 0\<close> (a null at the centre), and the zeros of the region boundary
  are at the positions 0.5 and -0.5.
\<close>

theorem full_wave_profile:
  "current_distribution [1 / 4, - (1 / 4), 0] 1 = Inr [1, 1, 0] \<and>
   current_distribution [1 / 2, - (1 / 2)] 1 = Inr [0, 0]"
  by (simp add: current_distribution_map spec_current_profile_def)

text \<open>
  C6. With length multiplier 0.5, the profile at the position 0 is
  \<open>sin(2\<pi> \<times> 0.25) = 1\<close>, and no position of any sequence has a larger value.
\<close>

theorem half_wave_peak:
  "current_distribution [0] (1 / 2) = Inr [1] \<and>
   (\<forall>x. \<exists>I. current_distribution x (1 / 2) = Inr I \<and> (\<forall>y \<in> set I. y \<le> 1))"
  by (auto simp: current_distribution_map spec_current_profile_def)

theorem half_wave_peak_witness:
  "current_distribution [0, 1] (1 / 2) = Inr [1, 0] \<and> (1::real) \<le> 1 \<and> (0::real) \<le> 1"
  using half_wave_peak by (simp add: current_distribution_map spec_current_profile_def)

text \<open>
  C9. With length multiplier 0 the profile is zero at every position of every sequence:
  a position other than 0 is outside the antenna, and at the position 0 the value is
  \<open>sin 0 = 0\<close>.
\<close>

theorem current_distribution_zero_length:
  "current_distribution x 0 = Inr (replicate (length x) 0)"
  by (simp add: current_distribution_map spec_current_profile_def
      map_replicate_const [symmetric])

subsection \<open>Wavelength and lengths\<close>

text \<open>
  C3. For every frequency, velocity factor and length multiplier above zero, \<open>lengths\<close>
  returns the wavelength that \<open>wavelength_m\<close> gives for the frequency, the total length
  \<open>multiplier \<times> wavelength \<times> velocity factor\<close>, and the arm length, which is half the
  total length.
\<close>

theorem lengths_spec:
  "0 < freq_mhz \<Longrightarrow> 0 < vf \<Longrightarrow> 0 < mult \<Longrightarrow>
   \<exists>lam total arm. lengths freq_mhz vf mult = Inr (lam, total, arm) \<and>
     wavelength_m freq_mhz = Inr lam \<and> total = mult * lam * vf \<and> arm = total / 2"
  by (simp add: lengths_def wavelength_m_def Let_def mult_ac)

theorem lengths_spec_witness:
  "lengths 100 (95 / 100) (5 / 10) = Inr (2.99792458, 1.4240141755, 0.71200708775)"
  using lengths_spec [of 100 "95 / 100" "5 / 10"] by (auto simp: wavelength_m_def C_def)

subsection \<open>The callbacks\<close>

text \<open>
  \<open>update\<close> always returns: the frequency it passes on is the default or a number above
  zero, so the division of \<open>wavelength_m\<close> is defined.
\<close>

lemma lengths_Inr:
  "freq_mhz \<noteq> 0 \<Longrightarrow>
   lengths freq_mhz vf mult =
     Inr (C / (freq_mhz * 1000000), mult * (C / (freq_mhz * 1000000)) * vf,
          mult * (C / (freq_mhz * 1000000)) * vf / 2)"
  by (simp add: lengths_def wavelength_m_def Let_def)

lemma used_freq_nonzero:
  "(case r of None \<Rightarrow> freq0 | Some f \<Rightarrow> if f \<le> 0 then freq0 else f) \<noteq> (0::real)"
  by (simp add: freq0_def split: option.split)

lemma update_Inr:
  "update py_float s =
     (let f = (case py_float (strip (tb_freq_text s)) of
                 None \<Rightarrow> freq0
               | Some f \<Rightarrow> if f \<le> 0 then freq0 else f);
          lam = C / (f * 1000000);
          L_total = s_mult_val s * lam * s_vf_val s
      in Inr (s\<lparr>line_ydata := map (spec_current_profile (s_mult_val s)) x_axis,
               status := Some \<lparr>shown_freq = f, shown_lam = lam, shown_total = L_total,
                 shown_mult = s_mult_val s, shown_vf = s_vf_val s,
                 shown_arm = L_total / 2\<rparr>\<rparr>))"
  unfolding update_def Let_def current_distribution_map
  by (simp add: lengths_Inr [OF used_freq_nonzero])

lemma update_widgets:
  "\<exists>s'. update py_float s = Inr s' \<and> tb_freq_text s' = tb_freq_text s \<and>
     s_vf_val s' = s_vf_val s \<and> s_mult_val s' = s_mult_val s"
  by (simp add: update_Inr Let_def)

lemma tb_freq_set_val_widgets:
  "\<exists>s'. tb_freq_set_val py_float t s = Inr s' \<and> tb_freq_text s' = t \<and>
     s_vf_val s' = s_vf_val s \<and> s_mult_val s' = s_mult_val s"
  using update_widgets [of py_float "s\<lparr>tb_freq_text := t\<rparr>"]
  by (auto simp: tb_freq_set_val_def submit_freq_def)

lemma s_vf_reset_widgets:
  "\<exists>s'. s_vf_reset py_float s = Inr s' \<and> tb_freq_text s' = tb_freq_text s \<and>
     s_vf_val s' = vf0 \<and> s_mult_val s' = s_mult_val s"
  using update_widgets [of py_float "s\<lparr>s_vf_val := vf0\<rparr>"]
  by (auto simp: s_vf_reset_def)

lemma s_mult_reset_widgets:
  "\<exists>s'. s_mult_reset py_float s = Inr s' \<and> tb_freq_text s' = tb_freq_text s \<and>
     s_vf_val s' = s_vf_val s \<and> s_mult_val s' = mult0"
  using update_widgets [of py_float "s\<lparr>s_mult_val := mult0\<rparr>"]
  by (auto simp: s_mult_reset_def)

text \<open>
  C8. From every state of the widgets (any text, any slider values, any display), and
  with a \<open>float\<close> that reads the text \<open>100.0\<close> as 100, \<open>reset\<close> returns; afterwards the
  box holds \<open>100.0\<close>, the sliders hold 0.95 and 0.5, the frequency shown is 100, the
  wavelength, total length and arm length shown are those \<open>lengths\<close> gives for
  (100, 0.95, 0.5), and the plotted profile is \<open>current_distribution\<close> of the position
  axis for 0.5.
\<close>

theorem reset_restores_defaults:
  assumes pf: "py_float ''100.0'' = Some 100"
  shows "\<exists>s' r. reset py_float s = Inr s' \<and>
     tb_freq_text s' = ''100.0'' \<and> s_vf_val s' = 95 / 100 \<and> s_mult_val s' = 5 / 10 \<and>
     status s' = Some r \<and> shown_freq r = 100 \<and>
     lengths 100 (95 / 100) (5 / 10) = Inr (shown_lam r, shown_total r, shown_arm r) \<and>
     current_distribution x_axis (5 / 10) = Inr (line_ydata s')"
proof -
  obtain s1 where s1: "tb_freq_set_val py_float str_freq0 s = Inr s1"
    "tb_freq_text s1 = str_freq0"
    using tb_freq_set_val_widgets by blast
  obtain s2 where s2: "s_vf_reset py_float s1 = Inr s2"
    "tb_freq_text s2 = str_freq0" "s_vf_val s2 = vf0"
    using s_vf_reset_widgets [of py_float s1] s1(2) by auto
  obtain s3 where s3: "s_mult_reset py_float s2 = Inr s3"
    "tb_freq_text s3 = str_freq0" "s_vf_val s3 = vf0" "s_mult_val s3 = mult0"
    using s_mult_reset_widgets [of py_float s2] s2(2,3) by auto
  have run: "reset py_float s = update py_float s3"
    by (simp add: reset_def then_do_def s1(1) s2(1) s3(1))
  have parsed: "py_float (strip (tb_freq_text s3)) = Some 100"
    by (simp add: s3(2) str_freq0_def strip_def is_space_def pf)
  show ?thesis
    unfolding run update_Inr Let_def parsed current_distribution_map
    by (simp add: s3 str_freq0_def vf0_def mult0_def lengths_Inr)
qed

theorem reset_restores_defaults_witness:
  "decimal_float ''100.0'' = Some 100 \<and>
   (\<exists>s' r. reset decimal_float
        \<lparr>tb_freq_text = ''27'', s_vf_val = 9 / 10, s_mult_val = 1, line_ydata = [],
         status = None\<rparr> = Inr s' \<and>
      status s' = Some r \<and> shown_freq r = 100 \<and> shown_lam r = 2.99792458 \<and>
      shown_total r = 1.4240141755 \<and> shown_arm r = 0.71200708775)"
proof -
  have pf: "decimal_float ''100.0'' = Some 100"
    by (simp add: decimal_float_def unsigned_decimal_def is_digit_def nat_of_digits_def)
  have "lengths 100 (95 / 100) (5 / 10) = Inr (2.99792458, 1.4240141755, 0.71200708775)"
    by (simp add: lengths_def wavelength_m_def C_def)
  with reset_restores_defaults [of decimal_float "\<lparr>tb_freq_text = ''27'', s_vf_val = 9 / 10, s_mult_val = 1,
      line_ydata = [], status = None\<rparr>"] pf
  show ?thesis by auto
qed

section \<open>Properties over doubles\<close>

subsection \<open>The range of doubles\<close>

lemma overflow_threshold_pos: "1 < overflow_threshold"
  by (simp add: overflow_threshold_def)

lemma underflow_threshold_pos: "0 < underflow_threshold"
  by (simp add: underflow_threshold_def)

lemma underflow_overflow: "underflow_threshold * overflow_threshold < 1"
  by (simp add: underflow_threshold_def overflow_threshold_def)

lemma underflow_threshold_less_one: "underflow_threshold < 1"
  by (simp add: underflow_threshold_def)

lemma to_double_Fin:
  "underflow_threshold < r \<Longrightarrow> r < overflow_threshold \<Longrightarrow> to_double r = Fin r"
  using overflow_threshold_pos underflow_threshold_pos by (simp add: to_double_def)

lemma to_double_zero: "to_double 0 = Fin 0"
  using overflow_threshold_pos underflow_threshold_pos by (simp add: to_double_def)

lemma to_double_cases:
  "to_double r = PInf \<and> overflow_threshold \<le> r \<or>
   to_double r = NInf \<and> r \<le> - overflow_threshold \<or>
   to_double r = Fin 0 \<and> \<bar>r\<bar> \<le> underflow_threshold \<or>
   to_double r = Fin r \<and> \<bar>r\<bar> < overflow_threshold"
  using overflow_threshold_pos by (auto simp: to_double_def)

lemma to_double_small:
  assumes "0 \<le> r" "r < overflow_threshold"
  shows "\<exists>r'. to_double r = Fin r' \<and> 0 \<le> r' \<and> r' \<le> r"
  using assms overflow_threshold_pos by (auto simp: to_double_def)

lemma to_double_two_pi: "to_double (2 * pi) = Fin (2 * pi)"
proof (rule to_double_Fin)
  show "underflow_threshold < 2 * pi"
    using pi_ge_two underflow_threshold_less_one by simp
  have "2 * pi < 8"
    using pi_less_4 by simp
  also have "(8::real) < overflow_threshold"
    by (simp add: overflow_threshold_def)
  finally show "2 * pi < overflow_threshold" .
qed

lemma current_distribution_d_map:
  assumes "ddiv L (Fin 2) = Inr half"
  shows "current_distribution_d x L =
     Inr (map (\<lambda>xi. if dle (dabs xi) half
                     then dsin (dmul (dmul (Fin 2) (Fin pi)) (dsub half (dabs xi)))
                     else Fin 0) x)"
proof -
  let ?P = "\<lambda>xi. dle (dabs xi) half"
  let ?f = "\<lambda>xi. dsin (dmul (dmul (Fin 2) (Fin pi)) (dsub half (dabs xi)))"
  have len: "length (map ?f (select x (map ?P x))) = count_true (map ?P x)"
    by (simp add: length_select)
  show ?thesis
  proof (cases "length (select x (map ?P x)) = 1")
    case True
    then show ?thesis
      using scatter_single [of x ?P ?f] scatter_select_map [of x "Fin 0" ?P ?f] assms
      by (simp add: current_distribution_d_def mask_get_def mask_set_def zeros_like_d_def)
  next
    case False
    then show ?thesis
      using len scatter_select_map [of x "Fin 0" ?P ?f] assms
      by (simp add: current_distribution_d_def mask_get_def mask_set_def zeros_like_d_def)
  qed
qed

lemma quotient_in_range:
  fixes c d :: real
  assumes "0 < d" "d < overflow_threshold" "c / d < overflow_threshold" "1 \<le> c"
  shows "underflow_threshold < d" "underflow_threshold < c / d"
proof -
  let ?T = overflow_threshold and ?U = underflow_threshold
  have T: "0 < ?T"
    using overflow_threshold_pos by simp
  have c_less: "c < ?T * d"
    using assms(1,3) by (simp add: pos_divide_less_eq)
  show "?U < d"
  proof (rule ccontr)
    assume "\<not> ?U < d"
    then have "?T * d \<le> ?T * ?U"
      using T by (intro mult_left_mono) simp_all
    with c_less underflow_overflow assms(4) show False
      by (simp add: mult.commute)
  qed
  show "?U < c / d"
  proof (rule ccontr)
    assume "\<not> ?U < c / d"
    then have "c \<le> ?U * d"
      using assms(1) by (simp add: pos_divide_le_eq not_less)
    also have "\<dots> \<le> ?U * ?T"
      using assms(2) underflow_threshold_pos by (intro mult_left_mono) simp_all
    finally show False
      using underflow_overflow assms(4) by simp
  qed
qed

subsection \<open>Wavelength\<close>

text \<open>
  C2, as the spec states it, fails: the frequency 1e303 is above zero, its product with
  1e6 overflows to infinity and the wavelength returned is 0, which is not positive;
  for the frequency 1e-307 the quotient overflows and the wavelength returned is
  infinite.
\<close>

theorem wavelength_m_d_out_of_range: "wavelength_m_d (Fin (10 ^ 303)) = Inr (Fin 0) \<and>
   wavelength_m_d (Fin (1 / 10 ^ 307)) = Inr PInf"
  by (simp add: wavelength_m_d_def to_double_def overflow_threshold_def underflow_threshold_def C_def)

text \<open>
  C2, amended. For every frequency above zero for which neither
  \<open>frequency \<times> 1e6\<close> nor \<open>299792458 / (frequency \<times> 1e6)\<close> overflows the range of
  doubles, \<open>wavelength_m\<close> returns \<open>299792458 / (frequency \<times> 1e6)\<close>, and this value is
  positive and finite.
\<close>

theorem wavelength_m_d_in_range:
  assumes "0 < f" and "f * 1000000 < overflow_threshold"
    and "299792458 / (f * 1000000) < overflow_threshold"
  shows "wavelength_m_d (Fin f) = Inr (Fin (299792458 / (f * 1000000))) \<and>
     0 < 299792458 / (f * 1000000)"
proof -
  let ?d = "f * 1000000"
  have d_pos: "0 < ?d"
    using assms(1) by simp
  have low: "underflow_threshold < ?d" "underflow_threshold < 299792458 / ?d"
    using quotient_in_range [OF d_pos assms(2,3)] by simp_all
  have d_fl: "to_double ?d = Fin ?d"
    using low(1) assms(2) by (rule to_double_Fin)
  have q_fl: "to_double (299792458 / ?d) = Fin (299792458 / ?d)"
    using low(2) assms(3) by (rule to_double_Fin)
  show ?thesis
    using d_fl q_fl d_pos by (simp add: wavelength_m_d_def C_def)
qed

theorem wavelength_m_d_in_range_witness:
  "(0::real) < 100 \<and> wavelength_m_d (Fin 100) = Inr (Fin (299792458 / 100000000))"
  using wavelength_m_d_in_range [of 100] by (simp add: overflow_threshold_def)

subsection \<open>The bound of the current profile\<close>

lemma half_cases:
  assumes "dle L (Fin c)" "c / 2 < overflow_threshold" "0 \<le> c"
  shows "\<exists>half. ddiv L (Fin 2) = Inr half \<and>
     (half = NInf \<or> (\<exists>h. half = Fin h \<and> h \<le> c / 2 \<and> (dle L (Fin 0) \<longrightarrow> h \<le> 0)))"
proof (cases L)
  case (Fin l)
  with assms have l: "l / 2 \<le> c / 2" "l / 2 < overflow_threshold"
    by simp_all
  with to_double_cases [of "l / 2"] assms(3) show ?thesis
    using Fin by auto
qed (use assms in auto)

lemma profile_d_unit:
  assumes "half = NInf \<or> (\<exists>h. half = Fin h \<and> h \<le> b)" and "8 * b < overflow_threshold"
  shows "\<exists>y. (if dle (dabs xi) half
               then dsin (dmul (dmul (Fin 2) (Fin pi)) (dsub half (dabs xi)))
               else Fin 0) = Fin y \<and> - 1 \<le> y \<and> y \<le> 1"
proof (cases "dle (dabs xi) half")
  case False
  then show ?thesis by simp
next
  case True
  then obtain h a where h: "half = Fin h" "h \<le> b" and a: "xi = Fin a" "\<bar>a\<bar> \<le> h"
    using assms(1) by (cases xi; cases half) auto
  have b: "0 \<le> b"
    using h(2) a(2) by simp
  have "0 \<le> h - \<bar>a\<bar>" "h - \<bar>a\<bar> < overflow_threshold"
    using h a b assms(2) by simp_all
  then obtain t where t: "to_double (h - \<bar>a\<bar>) = Fin t" "0 \<le> t" "t \<le> h - \<bar>a\<bar>"
    using to_double_small by blast
  have "t \<le> b"
    using t(3) h(2) by simp
  then have "2 * pi * t \<le> 8 * b"
    using pi_less_4 t(2) by (intro mult_mono) simp_all
  then have "0 \<le> 2 * pi * t" "2 * pi * t < overflow_threshold"
    using t(2) assms(2) by simp_all
  then obtain u where u: "to_double (2 * pi * t) = Fin u"
    using to_double_small by blast
  show ?thesis
    using True h a t u by (simp add: to_double_two_pi)
qed

lemma profile_d_zero:
  assumes "half = NInf \<or> (\<exists>h. half = Fin h \<and> h \<le> 0)"
  shows "(if dle (dabs xi) half
          then dsin (dmul (dmul (Fin 2) (Fin pi)) (dsub half (dabs xi)))
          else Fin 0) = Fin 0"
proof (cases "dle (dabs xi) half")
  case False
  then show ?thesis by simp
next
  case True
  then have "half = Fin 0" "xi = Fin 0"
    using assms by (cases xi; cases half; auto)+
  then show ?thesis
    by (simp add: to_double_two_pi to_double_zero)
qed

lemma safe_multiplier: "8 * ((4 * 10 ^ 307) / 2) < overflow_threshold"
  by (simp add: overflow_threshold_def)

lemma overflow_below: "overflow_threshold \<le> 2 * 2 * (10 ^ 308 / 2)"
  by (simp add: overflow_threshold_def)

lemma half_big: "to_double (10 ^ 308 / 2) = Fin (10 ^ 308 / 2)"
  by (simp add: to_double_def overflow_threshold_def underflow_threshold_def)

text \<open>
  C10, as stated, fails: for the length multiplier 1e308 and the position 0 the
  product \<open>2\<pi> \<times> 5e307\<close> overflows to infinity, whose sine is NaN, and NaN is not
  between -1 and 1.
\<close>

theorem current_distribution_d_nan:
  "current_distribution_d [Fin 0] (Fin (10 ^ 308)) = Inr [NaN] \<and> \<not> dle NaN (Fin 1)"
proof -
  define h :: real where "h = 10 ^ 308 / 2"
  have h: "to_double h = Fin h" "overflow_threshold \<le> 2 * 2 * h"
    unfolding h_def by (rule half_big, rule overflow_below)
  then have h_pos: "0 < h"
    using overflow_threshold_pos by simp
  have "2 * 2 * h \<le> 2 * pi * h"
    using pi_ge_two h_pos by simp
  with h(2) have "overflow_threshold \<le> 2 * pi * h"
    by simp
  then have big: "to_double (2 * pi * h) = PInf"
    by (simp add: to_double_def)
  have "ddiv (Fin (10 ^ 308)) (Fin 2) = Inr (Fin h)"
    unfolding h_def using half_big by (simp only: ddiv.simps) simp
  from current_distribution_d_map [OF this, of "[Fin 0]"] show ?thesis
    using big h(1) h_pos by (simp add: to_double_two_pi)
qed

text \<open>
  C10, amended. For every sequence of positions (finite, infinite or NaN) and every
  length multiplier that is at most 4e307, positive or not, \<open>current_distribution\<close>
  returns a sequence of the length of the positions whose every element is between -1
  and 1; for a length multiplier that is zero or negative the result is all zero.
\<close>

theorem current_distribution_d_bounded:
  assumes "dle L (Fin (4 * 10 ^ 307))"
  shows "\<exists>I. current_distribution_d x L = Inr I \<and> length I = length x \<and>
     (\<forall>y \<in> set I. dle (Fin (- 1)) y \<and> dle y (Fin 1)) \<and>
     (dle L (Fin 0) \<longrightarrow> I = replicate (length x) (Fin 0))"
proof -
  define c :: real where "c = 4 * 10 ^ 307"
  have L: "dle L (Fin c)"
    using assms unfolding c_def .
  have safe: "8 * (c / 2) < overflow_threshold"
    unfolding c_def by (rule safe_multiplier)
  have c_pos: "0 \<le> c"
    unfolding c_def by simp
  with safe have "c / 2 < overflow_threshold"
    by simp
  with L c_pos obtain half where half: "ddiv L (Fin 2) = Inr half"
    and cases: "half = NInf \<or> (\<exists>h. half = Fin h \<and> h \<le> c / 2 \<and> (dle L (Fin 0) \<longrightarrow> h \<le> 0))"
    using half_cases by blast
  let ?p = "\<lambda>xi. if dle (dabs xi) half
               then dsin (dmul (dmul (Fin 2) (Fin pi)) (dsub half (dabs xi)))
               else Fin 0"
  have run: "current_distribution_d x L = Inr (map ?p x)"
    using half by (rule current_distribution_d_map)
  have unit: "dle (Fin (- 1)) (?p xi) \<and> dle (?p xi) (Fin 1)" for xi
  proof -
    have "half = NInf \<or> (\<exists>h. half = Fin h \<and> h \<le> c / 2)"
      using cases by blast
    then obtain y where "?p xi = Fin y" "- 1 \<le> y" "y \<le> 1"
      using profile_d_unit [OF _ safe, of half xi] by blast
    then show ?thesis
      by (simp only: dle.simps)
  qed
  have zero: "map ?p x = replicate (length x) (Fin 0)" if "dle L (Fin 0)"
  proof -
    have "half = NInf \<or> (\<exists>h. half = Fin h \<and> h \<le> 0)"
      using cases that by blast
    then have "?p xi = Fin 0" for xi
      by (rule profile_d_zero)
    then show ?thesis
      by (simp only: map_replicate_const [symmetric])
  qed
  show ?thesis
  proof (intro exI conjI)
    show "current_distribution_d x L = Inr (map ?p x)"
      by (rule run)
    show "length (map ?p x) = length x"
      by (rule length_map)
    show "\<forall>y \<in> set (map ?p x). dle (Fin (- 1)) y \<and> dle y (Fin 1)"
      using unit by (simp only: set_map) blast
    show "dle L (Fin 0) \<longrightarrow> map ?p x = replicate (length x) (Fin 0)"
      using zero by blast
  qed
qed

theorem current_distribution_d_bounded_witness:
  "dle (Fin (- 1)) (Fin (4 * 10 ^ 307)) \<and> dle (Fin (- 1)) (Fin 0) \<and>
   current_distribution_d [Fin 0, Fin 1] (Fin (- 1)) = Inr [Fin 0, Fin 0]"
  using current_distribution_d_bounded [of "Fin (- 1)" "[Fin 0, Fin 1]"] by auto

subsection \<open>The frequency NaN\<close>

lemma current_distribution_d_returns: "\<exists>I. current_distribution_d x L = Inr I"
proof -
  obtain half where "ddiv L (Fin 2) = Inr half"
    by simp
  then show ?thesis
    using current_distribution_d_map by blast
qed

lemma dmul_NaN: "dmul a NaN = NaN"
  by (cases a) simp_all

lemma lengths_d_NaN: "lengths_d NaN vf mult = Inr (NaN, NaN, NaN)"
  by (simp add: lengths_d_def wavelength_m_d_def dmul_NaN)

text \<open>
  C7, at the input where the script leaves the claim. When \<open>float\<close> reads the text of
  the box as NaN (as it does for the text \<open>nan\<close>), the guard \<open>freq_mhz <= 0\<close> is false
  and nothing is raised: \<open>update\<close> returns, and the frequency it shows and computes the
  lengths from is NaN, not the default 100 MHz; so are the wavelength and the lengths.
\<close>

theorem update_d_nan_frequency:
  assumes "py_float (strip (tb_freq_text_d s)) = Some NaN"
  shows "\<exists>s' r. update_d py_float s = Inr s' \<and> status_d s' = Some r \<and>
     shown_freq_d r = NaN \<and> shown_freq_d r \<noteq> Fin 100 \<and>
     shown_lam_d r = NaN \<and> shown_total_d r = NaN \<and> shown_arm_d r = NaN"
proof -
  obtain I where "current_distribution_d x_axis_d (s_mult_val_d s) = Inr I"
    using current_distribution_d_returns by blast
  then show ?thesis
    using assms by (simp add: update_d_def lengths_d_NaN)
qed

theorem update_d_nan_frequency_witness:
  "special_float (strip ''nan'') = Some NaN \<and>
   (\<exists>s' r. update_d special_float
        \<lparr>tb_freq_text_d = ''nan'', s_vf_val_d = Fin (95 / 100), s_mult_val_d = Fin (5 / 10),
         line_ydata_d = [], status_d = None\<rparr> = Inr s' \<and>
      status_d s' = Some r \<and> shown_freq_d r = NaN \<and> shown_lam_d r = NaN)"
proof -
  have nan: "special_float (strip ''nan'') = Some NaN"
    by (simp add: special_float_def strip_def is_space_def)
  with update_d_nan_frequency [of special_float "\<lparr>tb_freq_text_d = ''nan'', s_vf_val_d = Fin (95 / 100),
      s_mult_val_d = Fin (5 / 10), line_ydata_d = [], status_d = None\<rparr>"]
  show ?thesis by auto
qed

end
